theory Spec2Isabelle
  imports Complex_Main
begin

section \<open>Topology Doctor: the analysis and focus operators of \<open>__init__.py\<close>\<close>

text \<open>
  The add-on has two operators. \<open>MESH_OT_AnalyzeTopo.execute\<close> reads a mesh, writes issue
  records and a score into scene properties; \<open>MESH_OT_FocusIssue.execute\<close> parses the index
  string of one record and selects the next flagged element. Both are modelled as functions
  from the state they touch to an outcome and the new state. What the host (Blender) supplies
  is data of the model: the element tables of the mesh, \<open>is_manifold\<close>, \<open>calc_length()\<close>,
  \<open>link_edges\<close>, the object's mode.
\<close>

subsection \<open>Python exceptions and operator results\<close>

datatype py_error =
  IndexError | ValueError | ZeroDivisionError | AttributeError | TypeError | RuntimeError

datatype op_status = FINISHED | CANCELLED

datatype outcome = Returned op_status | Raised py_error

subsection \<open>Python floats\<close>

text \<open>
  A finite Python float is the rational number it denotes. Every float operation of the
  source returns the exact result rounded to the nearest number with a 53-bit significand,
  ties to the even significand (IEEE 754 binary64, round-to-nearest-even). The exponent is
  left unbounded: the quotients, products and differences of the source lie between
  \<open>2^-64\<close> and \<open>200\<close> in the score, and a ratio of edge lengths is at least 1, so no
  operation underflows; an overflowing ratio is infinite in Python and huge here, and both
  exceed 15.
\<close>

type_synonym double = rat

fun bitlen_nat :: "nat \<Rightarrow> nat" where
  "bitlen_nat n = (if n = 0 then 0 else Suc (bitlen_nat (n div 2)))"

declare bitlen_nat.simps [simp del]

definition pow2 :: "int \<Rightarrow> rat" where
  "pow2 e = (if 0 \<le> e then 2 ^ nat e else 1 / 2 ^ nat (- e))"

text \<open>\<open>ilog2 x\<close> is the binary exponent of a positive \<open>x\<close>: \<open>2^(ilog2 x) \<le> x < 2^(ilog2 x + 1)\<close>.\<close>

definition ilog2 :: "rat \<Rightarrow> int" where
  "ilog2 x = (if 1 \<le> x then int (bitlen_nat (nat \<lfloor>x\<rfloor>)) - 1
              else - int (bitlen_nat (nat (\<lceil>1 / x\<rceil> - 1))))"

definition round_half_even :: "rat \<Rightarrow> int" where
  "round_half_even m =
     (let f = \<lfloor>m\<rfloor>; d = m - of_int f
      in if d < 1 / 2 then f else if 1 / 2 < d then f + 1
         else if even f then f else f + 1)"

definition double_round :: "rat \<Rightarrow> double" where
  "double_round x =
     (if x = 0 then 0
      else let e = ilog2 \<bar>x\<bar> - 52
           in sgn x * of_int (round_half_even (\<bar>x\<bar> / pow2 e)) * pow2 e)"

text \<open>\<open>a / b\<close> on ints or floats: raises on a zero divisor, otherwise correctly rounded.\<close>

definition py_truediv :: "rat \<Rightarrow> rat \<Rightarrow> py_error + double" where
  "py_truediv a b = (if b = 0 then Inl ZeroDivisionError else Inr (double_round (a / b)))"

definition float_mul :: "double \<Rightarrow> rat \<Rightarrow> double" where
  "float_mul a b = double_round (a * b)"

definition float_sub :: "double \<Rightarrow> rat \<Rightarrow> double" where
  "float_sub a b = double_round (a - b)"

text \<open>\<open>int(x)\<close> on a number truncates toward zero.\<close>

definition py_int_of_float :: "rat \<Rightarrow> int" where
  "py_int_of_float x = (if 0 \<le> x then \<lfloor>x\<rfloor> else \<lceil>x\<rceil>)"

text \<open>
  \<open>min(a, b)\<close> returns \<open>a\<close> unless \<open>b < a\<close>, \<open>max(a, b)\<close> returns \<open>a\<close> unless \<open>b > a\<close>;
  on numbers that is the smaller and the larger value. \<open>min\<close> and \<open>max\<close> of a sequence raise
  \<open>ValueError\<close> on an empty one.
\<close>

definition py_min :: "rat list \<Rightarrow> py_error + rat" where
  "py_min xs = (case xs of [] \<Rightarrow> Inl ValueError | x # r \<Rightarrow> Inr (fold min r x))"

definition py_max :: "rat list \<Rightarrow> py_error + rat" where
  "py_max xs = (case xs of [] \<Rightarrow> Inl ValueError | x # r \<Rightarrow> Inr (fold max r x))"

subsection \<open>Python sequences and strings\<close>

text \<open>\<open>xs[i]\<close>: a negative index counts from the end, an index out of range raises.\<close>

definition py_index :: "int \<Rightarrow> int \<Rightarrow> py_error + nat" where
  "py_index n i =
     (let j = (if i < 0 then n + i else i)
      in if 0 \<le> j \<and> j < n then Inr (nat j) else Inl IndexError)"

definition py_get :: "'a list \<Rightarrow> int \<Rightarrow> py_error + 'a" where
  "py_get xs i = (case py_index (int (length xs)) i of
                    Inl e \<Rightarrow> Inl e | Inr j \<Rightarrow> Inr (xs ! j))"

text \<open>
  A string is the list of its characters, a character being a code point below 256 (the
  index strings the analysis writes hold digits and commas only). \<open>str(n)\<close> of an int is
  its decimal numeral.
\<close>

definition digit_char :: "nat \<Rightarrow> char" where
  "digit_char d = ''0123456789'' ! d"

fun str_nat :: "nat \<Rightarrow> string" where
  "str_nat n = (if n < 10 then [digit_char n]
                else str_nat (n div 10) @ [digit_char (n mod 10)])"

declare str_nat.simps [simp del]

definition py_str :: "int \<Rightarrow> string" where
  "py_str i = (if i < 0 then CHR ''-'' # str_nat (nat (- i)) else str_nat (nat i))"

fun join_comma :: "string list \<Rightarrow> string" where
  "join_comma [] = []"
| "join_comma [s] = s"
| "join_comma (s # t # ss) = s @ CHR '','' # join_comma (t # ss)"

text \<open>\<open>s.split(',')\<close>: one field more than there are commas; the empty string gives \<open>['']\<close>.\<close>

fun split_comma :: "string \<Rightarrow> string list" where
  "split_comma [] = [[]]"
| "split_comma (c # cs) =
     (if c = CHR '','' then [] # split_comma cs
      else (case split_comma cs of [] \<Rightarrow> [[c]] | f # fs \<Rightarrow> (c # f) # fs))"

text \<open>
  \<open>int(s)\<close> on a string: surrounding blanks are dropped, one sign is allowed, then decimal
  digits, where single underscores may separate digits. Anything else raises \<open>ValueError\<close>.
  The blanks \<open>int\<close> drops are tab, line feed, vertical tab, form feed, carriage return and
  space, and the two blanks above the ASCII range, U+0085 and U+00A0, which \<open>int\<close> turns
  into spaces first; the separators U+001C to U+001F are not among them. Below 256 the
  decimal digits are \<open>0\<close> to \<open>9\<close>. The number of digits is not limited.
\<close>

definition is_digit :: "char \<Rightarrow> bool" where
  "is_digit c = (c \<in> set ''0123456789'')"

definition digit_val :: "char \<Rightarrow> nat" where
  "digit_val c = of_char c - 48"

definition py_isspace :: "char \<Rightarrow> bool" where
  "py_isspace c = (of_char c \<in> set [9, 10, 11, 12, 13, 32, 133, 160 :: nat])"

definition strip :: "string \<Rightarrow> string" where
  "strip s = rev (dropWhile py_isspace (rev (dropWhile py_isspace s)))"

fun digits_ok :: "string \<Rightarrow> bool" where
  "digits_ok [] = False"
| "digits_ok [c] = is_digit c"
| "digits_ok (c # d # cs) =
     (if is_digit c then (if d = CHR ''_'' then digits_ok cs else digits_ok (d # cs))
      else False)"

definition digits_value :: "string \<Rightarrow> nat" where
  "digits_value body =
     foldl (\<lambda>a c. 10 * a + digit_val c) 0 (filter (\<lambda>c. c \<noteq> CHR ''_'') body)"

definition py_int :: "string \<Rightarrow> py_error + int" where
  "py_int s =
     (case strip s of
        [] \<Rightarrow> Inl ValueError
      | c # r \<Rightarrow>
          (let sg = (if c = CHR ''-'' then - 1 else 1);
               body = (if c = CHR ''-'' \<or> c = CHR ''+'' then r else c # r)
           in if digits_ok body then Inr (sg * int (digits_value body))
              else Inl ValueError))"

text \<open>A list comprehension over a raising function stops at the first exception.\<close>

fun map_result :: "('a \<Rightarrow> 'e + 'b) \<Rightarrow> 'a list \<Rightarrow> 'e + 'b list" where
  "map_result f [] = Inr []"
| "map_result f (x # xs) =
     (case f x of
        Inl e \<Rightarrow> Inl e
      | Inr y \<Rightarrow> (case map_result f xs of Inl e \<Rightarrow> Inl e | Inr ys \<Rightarrow> Inr (y # ys)))"

text \<open>\<open>[int(i) for i in item.element_indices.split(',')]\<close>\<close>

definition parse_ids :: "string \<Rightarrow> py_error + int list" where
  "parse_ids s = map_result py_int (split_comma s)"

subsection \<open>The data model\<close>

text \<open>
  The element tables of a \<open>bmesh\<close>. An element's \<open>index\<close> is its position in its table
  (what \<open>from_mesh\<close> assigns). A face carries the vertices it uses, by index, and its edges,
  each with its index; an edge carries the host's \<open>is_manifold\<close> flag and the value
  \<open>calc_length()\<close> returns; a vertex carries its \<open>link_edges\<close>.
\<close>

record bm_edge =
  e_verts :: "nat list"
  is_manifold :: bool
  calc_length :: double

record bm_face =
  f_verts :: "nat list"
  f_edges :: "(nat \<times> bm_edge) list"

record bm_vert =
  link_edges :: "nat list"

record bmesh =
  verts :: "bm_vert list"
  edges :: "bm_edge list"
  faces :: "bm_face list"

text \<open>
  The active object: its name, type and mode, its mesh data, and the \<open>select\<close> flags of the
  mesh's elements (the sets of selected indices) with the selection history.
\<close>

record object =
  obj_name :: string
  obj_type :: string
  obj_mode :: string
  obj_data :: bmesh
  sel_verts :: "nat set"
  sel_edges :: "nat set"
  sel_faces :: "nat set"
  select_history :: "nat list"

record TopoIssueItem =
  severity :: string
  name :: string
  description :: string
  element_indices :: string
  element_type :: string
  current_pointer :: int

record TopoStats =
  vert_count :: int
  face_count :: int
  tri_count :: int
  ngon_count :: int
  score :: int
  target_name :: string

text \<open>
  The state an operator runs in: the two scene properties, the active object, the messages
  passed to \<open>self.report\<close> (level and text, oldest first), the number of
  \<open>view3d.view_selected\<close> requests, and the number of \<open>bmesh\<close> copies created by
  \<open>bmesh.new()\<close> and not yet freed.
\<close>

record state =
  topo_report_list :: "TopoIssueItem list"
  topo_stats :: TopoStats
  active_object :: "object option"
  reports :: "(string \<times> string) list"
  view_selected_calls :: nat
  live_bmeshes :: nat

definition report :: "string \<Rightarrow> string \<Rightarrow> state \<Rightarrow> state" where
  "report level msg s = s\<lparr>reports := reports s @ [(level, msg)]\<rparr>"

text \<open>
  \<open>bpy.ops.object.mode_set(mode=m)\<close> on the active object. The host offers edit mode for
  seven object types (Blender 3.0, the version the add-on declares); asked for \<open>'EDIT'\<close> on
  an object of another type, a camera say, the call raises \<open>TypeError\<close> (the mode is not
  among the values of the operator's argument) and the mode stays. The operators ask for
  \<open>'EDIT'\<close>, for \<open>'OBJECT'\<close>, which every object has, and for the mode a mesh object was
  in; a request for such a mode succeeds. Without an active object the call is refused
  (\<open>RuntimeError\<close>).
\<close>

definition has_edit_mode :: "string \<Rightarrow> bool" where
  "has_edit_mode t =
     (t \<in> set [''MESH'', ''CURVE'', ''SURFACE'', ''META'', ''FONT'', ''ARMATURE'', ''LATTICE''])"

definition mode_set :: "string \<Rightarrow> state \<Rightarrow> py_error + state" where
  "mode_set m s =
     (case active_object s of
        None \<Rightarrow> Inl RuntimeError
      | Some ob \<Rightarrow>
          if m = ''EDIT'' \<and> \<not> has_edit_mode (obj_type ob) then Inl TypeError
          else Inr (s\<lparr>active_object := Some (ob\<lparr>obj_mode := m\<rparr>)\<rparr>))"

subsection \<open>The analysis operator\<close>

definition add_issue ::
  "state \<Rightarrow> string \<Rightarrow> string \<Rightarrow> string \<Rightarrow> string \<Rightarrow> string \<Rightarrow> state" where
  "add_issue scene sev nm descr indices type_name =
     scene\<lparr>topo_report_list := topo_report_list scene @
       [\<lparr>severity = sev, name = nm, description = descr, element_indices = indices,
         element_type = type_name, current_pointer = 0\<rparr>]\<rparr>"

text \<open>The flagged elements of each check, each paired with its index, in table order.\<close>

definition ngon_faces :: "bmesh \<Rightarrow> (nat \<times> bm_face) list" where
  "ngon_faces bm = filter (\<lambda>(i, f). 4 < length (f_verts f)) (enumerate 0 (faces bm))"

definition bad_edges :: "bmesh \<Rightarrow> (nat \<times> bm_edge) list" where
  "bad_edges bm = filter (\<lambda>(i, e). \<not> is_manifold e) (enumerate 0 (edges bm))"

definition pole_verts :: "bmesh \<Rightarrow> (nat \<times> bm_vert) list" where
  "pole_verts bm = filter (\<lambda>(i, v). 5 < length (link_edges v)) (enumerate 0 (verts bm))"

text \<open>
  The body of the sliver loop for one face:
  \<open>len(f.edges) > 2\<close>, then \<open>min(lengths) > 0 and (max(lengths) / min(lengths)) > 15\<close>,
  where \<open>and\<close> evaluates its right operand only when the left one holds.
\<close>

definition is_sliver :: "bm_face \<Rightarrow> py_error + bool" where
  "is_sliver f =
     (if 2 < length (f_edges f) then
        (let lengths = map (\<lambda>e. calc_length (snd e)) (f_edges f)
         in case py_min lengths of
              Inl e \<Rightarrow> Inl e
            | Inr mn \<Rightarrow>
                if 0 < mn then
                  (case py_max lengths of
                     Inl e \<Rightarrow> Inl e
                   | Inr mx \<Rightarrow>
                       (case py_truediv mx mn of
                          Inl e \<Rightarrow> Inl e
                        | Inr q \<Rightarrow> Inr (15 < q)))
                else Inr False)
      else Inr False)"

fun sliver_loop :: "(nat \<times> bm_face) list \<Rightarrow> py_error + (nat \<times> bm_face) list" where
  "sliver_loop [] = Inr []"
| "sliver_loop (p # ps) =
     (case is_sliver (snd p) of
        Inl e \<Rightarrow> Inl e
      | Inr b \<Rightarrow>
          (case sliver_loop ps of
             Inl e \<Rightarrow> Inl e
           | Inr r \<Rightarrow> Inr (if b then p # r else r)))"

definition sliver_faces :: "bmesh \<Rightarrow> py_error + (nat \<times> bm_face) list" where
  "sliver_faces bm = sliver_loop (enumerate 0 (faces bm))"

text \<open>\<open>",".join([str(x.index) for x in flagged[:200]])\<close>\<close>

definition indices_str :: "(nat \<times> 'a) list \<Rightarrow> string" where
  "indices_str flagged = join_comma (map (\<lambda>p. py_str (int (fst p))) (take 200 flagged))"

text \<open>The four checks, each adding at most one record.\<close>

definition ngon_check :: "state \<Rightarrow> (nat \<times> bm_face) list \<Rightarrow> nat \<Rightarrow> py_error + state" where
  "ngon_check scene ngons total_faces =
     (if ngons \<noteq> [] then
        (case py_truediv (of_nat (length ngons)) (of_nat total_faces) of
           Inl e \<Rightarrow> Inl e
         | Inr q \<Rightarrow>
             (let ratio = float_mul q 100;
                  sev = (if 1 < ratio then ''HIGH'' else ''MEDIUM'')
              in Inr (add_issue scene sev
                   (py_str (int (length ngons)) @ '' N-Gons Detected'')
                   ''Faces with >4 edges. Click the button to cycle through them and fix.''
                   (indices_str ngons) ''FACE'')))
      else Inr scene)"

definition bad_edge_check :: "state \<Rightarrow> (nat \<times> bm_edge) list \<Rightarrow> state" where
  "bad_edge_check scene bad =
     (if bad \<noteq> [] then
        add_issue scene ''CRITICAL'' ''Non-Manifold Geometry''
          ''Edges creating holes or internal faces.'' (indices_str bad) ''EDGE''
      else scene)"

definition sliver_check :: "state \<Rightarrow> (nat \<times> bm_face) list \<Rightarrow> state" where
  "sliver_check scene slivers =
     (if slivers \<noteq> [] then
        add_issue scene ''MEDIUM'' (py_str (int (length slivers)) @ '' Sliver Faces'')
          ''Long, thin faces causing shading artifacts.'' (indices_str slivers) ''FACE''
      else scene)"

definition pole_check :: "state \<Rightarrow> (nat \<times> bm_vert) list \<Rightarrow> state" where
  "pole_check scene poles =
     (if poles \<noteq> [] then
        add_issue scene ''INFO'' (py_str (int (length poles)) @ '' High-Valence Poles'')
          ''Vertices with >5 edges (Stars). Check placement.'' (indices_str poles) ''VERT''
      else scene)"

text \<open>
  The scoring block: \<open>current_score\<close> is a float from \<open>100.0\<close> on, every \<open>-=\<close> rounds, and
  \<open>int(max(0, min(100, current_score)))\<close> clamps and truncates.
\<close>

definition current_score :: "nat \<Rightarrow> nat \<Rightarrow> bool \<Rightarrow> nat \<Rightarrow> py_error + double" where
  "current_score n_ngons total_faces any_bad n_slivers =
     (case py_truediv (of_nat n_ngons) (of_nat total_faces) of
        Inl e \<Rightarrow> Inl e
      | Inr q1 \<Rightarrow>
          (let c1 = float_sub 100 (float_mul q1 200);
               c2 = (if any_bad then float_sub c1 25 else c1)
           in case py_truediv (of_nat n_slivers) (of_nat total_faces) of
                Inl e \<Rightarrow> Inl e
              | Inr q2 \<Rightarrow> Inr (float_sub c2 (float_mul q2 100))))"

definition clamp_score :: "double \<Rightarrow> int" where
  "clamp_score c = py_int_of_float (max 0 (min 100 c))"

text \<open>
  \<open>MESH_OT_AnalyzeTopo.execute\<close>. \<open>analyze_mesh\<close> is the part after the zero-face return,
  up to the assignment of the score; an exception leaves the state as it was when raised.
\<close>

definition analyze_mesh :: "state \<Rightarrow> bmesh \<Rightarrow> nat \<Rightarrow> py_error \<times> state + state" where
  "analyze_mesh scene bm total_faces =
     (let st = (topo_stats scene)
            \<lparr>vert_count := int (length (verts bm)),
             face_count := int total_faces,
             tri_count := int (length (filter (\<lambda>f. length (f_verts f) = 3) (faces bm))),
             ngon_count := int (length (filter (\<lambda>f. 4 < length (f_verts f)) (faces bm)))\<rparr>;
          s1 = scene\<lparr>topo_stats := st\<rparr>;
          ngons = ngon_faces bm
      in case ngon_check s1 ngons total_faces of
           Inl e \<Rightarrow> Inl (e, s1)
         | Inr s2 \<Rightarrow>
             (let bad = bad_edges bm;
                  s3 = bad_edge_check s2 bad
              in case sliver_faces bm of
                   Inl e \<Rightarrow> Inl (e, s3)
                 | Inr slivers \<Rightarrow>
                     (let s4 = sliver_check s3 slivers;
                          s5 = pole_check s4 (pole_verts bm)
                      in case current_score (length ngons) total_faces (bad \<noteq> [])
                                (length slivers) of
                           Inl e \<Rightarrow> Inl (e, s5)
                         | Inr c \<Rightarrow>
                             Inr (s5\<lparr>topo_stats := (topo_stats s5)\<lparr>score := clamp_score c\<rparr>\<rparr>))))"

definition analyze_execute :: "state \<Rightarrow> outcome \<times> state" where
  "analyze_execute context =
     (let scene = context\<lparr>topo_report_list := []\<rparr>
      in case active_object scene of
           None \<Rightarrow> (Returned CANCELLED, report ''ERROR'' ''Please select a Mesh object.'' scene)
         | Some ob \<Rightarrow>
             if obj_type ob \<noteq> ''MESH'' then
               (Returned CANCELLED, report ''ERROR'' ''Please select a Mesh object.'' scene)
             else
               (let s1 = scene\<lparr>topo_stats := (topo_stats scene)\<lparr>target_name := obj_name ob\<rparr>\<rparr>;
                    previous_mode = obj_mode ob
                in case (if previous_mode \<noteq> ''OBJECT'' then mode_set ''OBJECT'' s1
                         else Inr s1) of
                     Inl e \<Rightarrow> (Raised e, s1)
                   | Inr s2 \<Rightarrow>
                       (let s3 = s2\<lparr>live_bmeshes := Suc (live_bmeshes s2)\<rparr>;
                            bm = obj_data ob;
                            total_faces = length (faces bm)
                        in if total_faces = 0 then
                             (Returned FINISHED, s3\<lparr>live_bmeshes := live_bmeshes s3 - 1\<rparr>)
                           else
                             (case analyze_mesh s3 bm total_faces of
                                Inl (e, s4) \<Rightarrow> (Raised e, s4)
                              | Inr s4 \<Rightarrow>
                                  (let s5 = (if topo_report_list s4 = [] then
                                               add_issue s4 ''GOOD'' ''Immaculate Topology''
                                                 ''No issues found.'' [] []
                                             else s4);
                                       s6 = s5\<lparr>live_bmeshes := live_bmeshes s5 - 1\<rparr>
                                   in case (if previous_mode \<noteq> ''OBJECT''
                                            then mode_set previous_mode s6 else Inr s6) of
                                        Inl e \<Rightarrow> (Raised e, s6)
                                      | Inr s7 \<Rightarrow> (Returned FINISHED, s7))))))"

subsection \<open>The focus operator\<close>

definition update_object :: "(object \<Rightarrow> object) \<Rightarrow> state \<Rightarrow> state" where
  "update_object f s = s\<lparr>active_object := map_option f (active_object s)\<rparr>"

definition set_pointer :: "nat \<Rightarrow> int \<Rightarrow> state \<Rightarrow> state" where
  "set_pointer k p s =
     s\<lparr>topo_report_list :=
         (topo_report_list s)[k := (topo_report_list s ! k)\<lparr>current_pointer := p\<rparr>]\<rparr>"

text \<open>
  The three loops \<open>for v in bm.verts: v.select = False\<close> (edges, faces alike) and
  \<open>bm.select_history.clear()\<close>.
\<close>

definition deselect_all :: "object \<Rightarrow> object" where
  "deselect_all ob = ob\<lparr>sel_verts := {}, sel_edges := {}, sel_faces := {}, select_history := []\<rparr>"

text \<open>
  The \<open>try\<close> block: the branch on \<open>element_type\<close>, the guard \<open>target_id < len(table)\<close>, the
  lookup \<open>table[target_id]\<close> (which accepts a negative index and raises \<open>IndexError\<close> below
  \<open>-len(table)\<close>), and the \<open>select = True\<close> assignments. In the host, selecting a face
  selects its vertices and its edges with it, and selecting an edge selects its two
  vertices; the loops over \<open>target.verts\<close> select the vertices once more. Elements are taken
  to be visible (the host leaves a hidden element unselected).
\<close>

definition select_target :: "object \<Rightarrow> string \<Rightarrow> int \<Rightarrow> py_error + object" where
  "select_target ob etype target_id =
     (let bm = obj_data ob
      in if etype = ''FACE'' then
           (if target_id < int (length (faces bm)) then
              (case py_index (int (length (faces bm))) target_id of
                 Inl e \<Rightarrow> Inl e
               | Inr j \<Rightarrow>
                   Inr (ob\<lparr>sel_faces := insert j (sel_faces ob),
                           sel_edges := sel_edges ob \<union> set (map fst (f_edges (faces bm ! j))),
                           sel_verts := sel_verts ob \<union> set (f_verts (faces bm ! j))\<rparr>))
            else Inr ob)
         else if etype = ''EDGE'' then
           (if target_id < int (length (edges bm)) then
              (case py_index (int (length (edges bm))) target_id of
                 Inl e \<Rightarrow> Inl e
               | Inr j \<Rightarrow>
                   Inr (ob\<lparr>sel_edges := insert j (sel_edges ob),
                           sel_verts := sel_verts ob \<union> set (e_verts (edges bm ! j))\<rparr>))
            else Inr ob)
         else if etype = ''VERT'' then
           (if target_id < int (length (verts bm)) then
              (case py_index (int (length (verts bm))) target_id of
                 Inl e \<Rightarrow> Inl e
               | Inr j \<Rightarrow> Inr (ob\<lparr>sel_verts := insert j (sel_verts ob)\<rparr>))
            else Inr ob)
         else Inr ob)"

definition selected_message :: "string \<Rightarrow> int \<Rightarrow> int \<Rightarrow> nat \<Rightarrow> string" where
  "selected_message etype target_id pointer n =
     ''Selected '' @ etype @ '' #'' @ py_str target_id @ '' ('' @ py_str pointer @ ''/''
       @ py_str (int n) @ '')''"

text \<open>
  \<open>MESH_OT_FocusIssue.execute\<close>, with \<open>self.index = idx\<close>. The report list is a host
  collection, indexed like a Python sequence. \<open>obj.mode\<close> on no object raises
  \<open>AttributeError\<close>; an exception of \<open>mode_set\<close> ends the operator before the index string is
  looked at; \<open>bmesh.from_edit_mesh\<close> refuses data that is not a mesh (\<open>TypeError\<close>). The bare
  \<open>except\<close> around the parse swallows every exception; the one around the selection catches
  \<open>IndexError\<close> only.
\<close>

definition focus_execute :: "int \<Rightarrow> state \<Rightarrow> outcome \<times> state" where
  "focus_execute idx context =
     (case py_index (int (length (topo_report_list context))) idx of
        Inl e \<Rightarrow> (Raised e, context)
      | Inr k \<Rightarrow>
          (let item = topo_report_list context ! k
           in case active_object context of
                None \<Rightarrow> (Raised AttributeError, context)
              | Some ob0 \<Rightarrow>
                  (case (if obj_mode ob0 \<noteq> ''EDIT'' then mode_set ''EDIT'' context
                         else Inr context) of
                     Inl e \<Rightarrow> (Raised e, context)
                   | Inr s1 \<Rightarrow>
                       if element_indices item = [] then
                         (Returned FINISHED,
                          report ''WARNING'' ''No specific geometry to select for this issue.'' s1)
                       else
                         (case parse_ids (element_indices item) of
                            Inl e \<Rightarrow> (Returned FINISHED, s1)
                          | Inr ids \<Rightarrow>
                              (let pointer = (if int (length ids) \<le> current_pointer item then 0
                                              else current_pointer item);
                                   s2 = (if int (length ids) \<le> current_pointer item
                                         then set_pointer k 0 s1 else s1)
                               in case py_get ids pointer of
                                    Inl e \<Rightarrow> (Raised e, s2)
                                  | Inr target_id \<Rightarrow>
                                      if obj_type ob0 \<noteq> ''MESH'' then (Raised TypeError, s2)
                                      else
                                        (let s3 = update_object deselect_all s2;
                                             ob1 = deselect_all (ob0\<lparr>obj_mode := ''EDIT''\<rparr>)
                                         in case select_target ob1 (element_type item) target_id of
                                              Inl e \<Rightarrow>
                                                if e = IndexError then
                                                  (Returned CANCELLED,
                                                   report ''ERROR''
                                                     ''Geometry changed. Please Re-Analyze.'' s3)
                                                else (Raised e, s3)
                                            | Inr ob2 \<Rightarrow>
                                                (let s4 = s3\<lparr>active_object := Some ob2,
                                                             view_selected_calls :=
                                                               Suc (view_selected_calls s3)\<rparr>;
                                                     s5 = set_pointer k (pointer + 1) s4
                                                 in (Returned FINISHED,
                                                     report ''INFO''
                                                       (selected_message (element_type item)
                                                          target_id (pointer + 1) (length ids))
                                                       s5))))))))"

text \<open>The state after \<open>k\<close> invocations in succession on the record at \<open>idx\<close>.\<close>

primrec focus_repeat :: "nat \<Rightarrow> int \<Rightarrow> state \<Rightarrow> state" where
  "focus_repeat 0 idx s = s"
| "focus_repeat (Suc k) idx s = snd (focus_execute idx (focus_repeat k idx s))"

subsection \<open>The score as the specification states it\<close>


subsection \<open>Example scenes\<close>

text \<open>
  An edge of length 1 between two vertices; a face over a table of edges, given by the
  indices of its vertices and of its edges.
\<close>

definition unit_edge :: "nat \<Rightarrow> nat \<Rightarrow> bool \<Rightarrow> bm_edge" where
  "unit_edge a b m = \<lparr>e_verts = [a, b], is_manifold = m, calc_length = 1\<rparr>"

definition face_of :: "bm_edge list \<Rightarrow> nat list \<Rightarrow> nat list \<Rightarrow> bm_face" where
  "face_of es vs ids = \<lparr>f_verts = vs, f_edges = map (\<lambda>i. (i, es ! i)) ids\<rparr>"

definition vert_on :: "nat list \<Rightarrow> bm_vert" where
  "vert_on es = \<lparr>link_edges = es\<rparr>"

definition mesh_object :: "string \<Rightarrow> string \<Rightarrow> bmesh \<Rightarrow> object" where
  "mesh_object nm mode bm =
     \<lparr>obj_name = nm, obj_type = ''MESH'', obj_mode = mode, obj_data = bm,
      sel_verts = {}, sel_edges = {}, sel_faces = {}, select_history = []\<rparr>"

definition issue :: "string \<Rightarrow> string \<Rightarrow> string \<Rightarrow> int \<Rightarrow> TopoIssueItem" where
  "issue sev indices etype p =
     \<lparr>severity = sev, name = ''Issue'', description = ''Found earlier.'',
      element_indices = indices, element_type = etype, current_pointer = p\<rparr>"

definition earlier_stats :: TopoStats where
  "earlier_stats = \<lparr>vert_count = 8, face_count = 6, tri_count = 0, ngon_count = 0,
                    score = 75, target_name = ''Cube''\<rparr>"

definition scene_of :: "TopoIssueItem list \<Rightarrow> object option \<Rightarrow> state" where
  "scene_of items ob =
     \<lparr>topo_report_list = items, topo_stats = earlier_stats, active_object = ob,
      reports = [], view_selected_calls = 0, live_bmeshes = 0\<rparr>"

definition no_object_state :: state where
  "no_object_state = scene_of [issue ''CRITICAL'' ''4'' ''EDGE'' 0] None"

definition camera_state :: state where
  "camera_state = scene_of [issue ''CRITICAL'' ''4'' ''EDGE'' 0]
     (Some ((mesh_object ''Camera'' ''OBJECT'' \<lparr>verts = [], edges = [], faces = []\<rparr>)
              \<lparr>obj_type := ''CAMERA''\<rparr>))"

text \<open>Three vertices joined by two loose edges.\<close>

definition faceless_mesh :: bmesh where
  "faceless_mesh = \<lparr>verts = [vert_on [0], vert_on [0, 1], vert_on [1]],
                    edges = [unit_edge 0 1 False, unit_edge 1 2 False], faces = []\<rparr>"

definition faceless_state :: state where
  "faceless_state = scene_of [issue ''CRITICAL'' ''4'' ''EDGE'' 0]
     (Some (mesh_object ''Plane'' ''EDIT'' faceless_mesh))"

text \<open>
  A strip of three unit quads: eight vertices, ten edges, of which the two between
  neighbouring quads are manifold.
\<close>

definition strip_edges :: "bm_edge list" where
  "strip_edges =
     [unit_edge 0 1 False, unit_edge 0 2 False, unit_edge 1 3 False, unit_edge 2 3 True,
      unit_edge 2 4 False, unit_edge 3 5 False, unit_edge 4 5 True, unit_edge 4 6 False,
      unit_edge 5 7 False, unit_edge 6 7 False]"

definition three_quads :: bmesh where
  "three_quads =
     \<lparr>verts = [vert_on [0, 1], vert_on [0, 2], vert_on [3, 1, 4], vert_on [3, 2, 5],
               vert_on [6, 4, 7], vert_on [6, 5, 8], vert_on [9, 7], vert_on [9, 8]],
      edges = strip_edges,
      faces = [face_of strip_edges [0, 2, 3, 1] [1, 3, 2, 0],
               face_of strip_edges [2, 4, 5, 3] [4, 6, 5, 3],
               face_of strip_edges [4, 6, 7, 5] [7, 9, 8, 6]]\<rparr>"

definition stale_state :: state where
  "stale_state = scene_of [issue ''HIGH'' ''7'' ''FACE'' 0]
     (Some ((mesh_object ''Cube'' ''EDIT'' three_quads)\<lparr>sel_faces := {1}\<rparr>))"

definition garbled_state :: state where
  "garbled_state = scene_of [issue ''HIGH'' ''abc'' ''FACE'' 0]
     (Some ((mesh_object ''Cube'' ''EDIT'' three_quads)\<lparr>sel_faces := {1}\<rparr>))"

definition good_state :: state where
  "good_state = scene_of [issue ''GOOD'' [] [] 0]
     (Some ((mesh_object ''Cube'' ''OBJECT'' three_quads)\<lparr>sel_faces := {1}\<rparr>))"

text \<open>
  Separate pentagons, each on five vertices and five edges of its own: every face is an
  n-gon and every edge a border.
\<close>

definition islands :: "nat \<Rightarrow> bmesh" where
  "islands n =
     \<lparr>verts = concat (map (\<lambda>k. map (\<lambda>i. vert_on [5 * k + i, 5 * k + (i + 4) mod 5]) [0..<5])
                 [0..<n]),
      edges = concat (map (\<lambda>k. map (\<lambda>i. unit_edge (5 * k + i) (5 * k + (i + 1) mod 5) False)
                 [0..<5]) [0..<n]),
      faces = map (\<lambda>k. \<lparr>f_verts = map (\<lambda>i. 5 * k + i) [0..<5],
                         f_edges = map (\<lambda>i. (5 * k + i,
                           unit_edge (5 * k + i) (5 * k + (i + 1) mod 5) False)) [0..<5]\<rparr>)
                [0..<n]\<rparr>"

definition islands_state :: state where
  "islands_state = scene_of [] (Some (mesh_object ''Tiles'' ''OBJECT'' (islands 3)))"

text \<open>A record of three faces of the strip, not yet visited.\<close>

definition cycle_state :: state where
  "cycle_state = scene_of [issue ''HIGH'' ''2,0,1'' ''FACE'' 0]
     (Some (mesh_object ''Strip'' ''OBJECT'' three_quads))"







section \<open>Properties\<close>

subsection \<open>The analysis never raises\<close>

lemma py_min_Min: "xs \<noteq> [] \<Longrightarrow> py_min xs = Inr (Min (set xs))"
proof (cases xs)
  case Nil
  assume "xs \<noteq> []"
  with Nil show ?thesis by simp
next
  case (Cons a r)
  show ?thesis using Min.set_eq_fold [of a r] by (simp add: py_min_def Cons)
qed

lemma py_max_Max: "xs \<noteq> [] \<Longrightarrow> py_max xs = Inr (Max (set xs))"
proof (cases xs)
  case Nil
  assume "xs \<noteq> []"
  with Nil show ?thesis by simp
next
  case (Cons a r)
  show ?thesis using Max.set_eq_fold [of a r] by (simp add: py_max_def Cons)
qed

lemma is_sliver_total:
  "is_sliver f =
     Inr (2 < length (f_edges f) \<and>
          0 < Min (set (map (\<lambda>e. calc_length (snd e)) (f_edges f))) \<and>
          15 < double_round (Max (set (map (\<lambda>e. calc_length (snd e)) (f_edges f)))
                              / Min (set (map (\<lambda>e. calc_length (snd e)) (f_edges f)))))"
proof (cases "2 < length (f_edges f)")
  case False
  then show ?thesis by (simp add: is_sliver_def)
next
  case True
  then have ne: "map (\<lambda>e. calc_length (snd e)) (f_edges f) \<noteq> []" by auto
  show ?thesis
    using True py_min_Min [OF ne] py_max_Max [OF ne]
    by (simp add: is_sliver_def py_truediv_def Let_def)
qed

lemma sliver_loop_total:
  "sliver_loop ps = Inr (filter (\<lambda>p. is_sliver (snd p) = Inr True) ps)"
proof (induction ps)
  case Nil
  show ?case by simp
next
  case (Cons p ps)
  obtain b where b: "is_sliver (snd p) = Inr b"
    using is_sliver_total by blast
  show ?case using Cons b by simp
qed

lemma sliver_faces_total:
  "sliver_faces bm = Inr (filter (\<lambda>p. is_sliver (snd p) = Inr True) (enumerate 0 (faces bm)))"
  by (simp add: sliver_faces_def sliver_loop_total)

lemma add_issue_frame [simp]:
  "active_object (add_issue s a b c d e) = active_object s"
  "live_bmeshes (add_issue s a b c d e) = live_bmeshes s"
  "reports (add_issue s a b c d e) = reports s"
  "topo_stats (add_issue s a b c d e) = topo_stats s"
  "view_selected_calls (add_issue s a b c d e) = view_selected_calls s"
  by (simp_all add: add_issue_def)

lemma ngon_check_total:
  "total_faces \<noteq> 0 \<Longrightarrow> \<exists>s'. ngon_check s ngons total_faces = Inr s' \<and>
     active_object s' = active_object s \<and> live_bmeshes s' = live_bmeshes s \<and>
     reports s' = reports s \<and> topo_stats s' = topo_stats s \<and>
     view_selected_calls s' = view_selected_calls s"
  by (simp add: ngon_check_def py_truediv_def Let_def)

lemma bad_edge_check_frame [simp]:
  "active_object (bad_edge_check s b) = active_object s"
  "live_bmeshes (bad_edge_check s b) = live_bmeshes s"
  "reports (bad_edge_check s b) = reports s"
  "topo_stats (bad_edge_check s b) = topo_stats s"
  "view_selected_calls (bad_edge_check s b) = view_selected_calls s"
  by (simp_all add: bad_edge_check_def)

lemma sliver_check_frame [simp]:
  "active_object (sliver_check s b) = active_object s"
  "live_bmeshes (sliver_check s b) = live_bmeshes s"
  "reports (sliver_check s b) = reports s"
  "topo_stats (sliver_check s b) = topo_stats s"
  "view_selected_calls (sliver_check s b) = view_selected_calls s"
  by (simp_all add: sliver_check_def)

lemma pole_check_frame [simp]:
  "active_object (pole_check s b) = active_object s"
  "live_bmeshes (pole_check s b) = live_bmeshes s"
  "reports (pole_check s b) = reports s"
  "topo_stats (pole_check s b) = topo_stats s"
  "view_selected_calls (pole_check s b) = view_selected_calls s"
  by (simp_all add: pole_check_def)

lemma current_score_total:
  "total_faces \<noteq> 0 \<Longrightarrow> \<exists>c. current_score n total_faces b m = Inr c"
  by (simp add: current_score_def py_truediv_def Let_def)

lemma analyze_mesh_total:
  assumes "total_faces \<noteq> 0"
  shows "\<exists>s'. analyze_mesh s bm total_faces = Inr s' \<and>
     active_object s' = active_object s \<and> live_bmeshes s' = live_bmeshes s \<and>
     reports s' = reports s \<and> view_selected_calls s' = view_selected_calls s"
proof -
  let ?s1 = "s\<lparr>topo_stats := (topo_stats s)
            \<lparr>vert_count := int (length (verts bm)),
             face_count := int total_faces,
             tri_count := int (length (filter (\<lambda>f. length (f_verts f) = 3) (faces bm))),
             ngon_count := int (length (filter (\<lambda>f. 4 < length (f_verts f)) (faces bm)))\<rparr>\<rparr>"
  obtain s2 where s2: "ngon_check ?s1 (ngon_faces bm) total_faces = Inr s2"
    "active_object s2 = active_object ?s1" "live_bmeshes s2 = live_bmeshes ?s1"
    "reports s2 = reports ?s1" "view_selected_calls s2 = view_selected_calls ?s1"
    using ngon_check_total [OF assms, of ?s1 "ngon_faces bm"] by blast
  obtain c where c: "current_score (length (ngon_faces bm)) total_faces (bad_edges bm \<noteq> [])
      (length (filter (\<lambda>p. is_sliver (snd p) = Inr True) (enumerate 0 (faces bm)))) = Inr c"
    using current_score_total [OF assms] by blast
  show ?thesis
    using s2 c by (simp add: analyze_mesh_def Let_def sliver_faces_total)
qed

text \<open>On a mesh object every request of the operators is granted.\<close>

lemma mode_set_mesh:
  "active_object s = Some ob \<Longrightarrow> obj_type ob = ''MESH'' \<Longrightarrow>
   mode_set m s = Inr (s\<lparr>active_object := Some (ob\<lparr>obj_mode := m\<rparr>)\<rparr>)"
  by (simp add: mode_set_def has_edit_mode_def)

lemma report_frame [simp]:
  "live_bmeshes (report l m s) = live_bmeshes s"
  "active_object (report l m s) = active_object s"
  "topo_stats (report l m s) = topo_stats s"
  "topo_report_list (report l m s) = topo_report_list s"
  "view_selected_calls (report l m s) = view_selected_calls s"
  by (simp_all add: report_def)

subsection \<open>Frame of the analysis\<close>

text \<open>
  C10. The analysis works on a copy: whatever the state, the mesh data of the active object
  is the same after the operator as before, every copy made by \<open>bmesh.new()\<close> has been
  freed, and the operator returns (no exception escapes).
\<close>

theorem analyze_leaves_mesh_data:
  "map_option obj_data (active_object (snd (analyze_execute c)))
     = map_option obj_data (active_object c)
   \<and> live_bmeshes (snd (analyze_execute c)) = live_bmeshes c
   \<and> (\<forall>e. fst (analyze_execute c) \<noteq> Raised e)"
proof (cases "active_object c")
  case None
  then show ?thesis by (simp add: analyze_execute_def)
next
  case (Some ob)
  show ?thesis
  proof (cases "obj_type ob = ''MESH''")
    case False
    with Some show ?thesis by (simp add: analyze_execute_def)
  next
    case mesh: True
    show ?thesis
    proof (cases "faces (obj_data ob) = []")
      case True
      with Some mesh show ?thesis
        by (simp add: analyze_execute_def Let_def mode_set_def has_edit_mode_def)
    next
      case False
      then have nz: "length (faces (obj_data ob)) \<noteq> 0" by simp
      let ?s1 = "c\<lparr>topo_report_list := [],
                   topo_stats := (topo_stats c)\<lparr>target_name := obj_name ob\<rparr>\<rparr>"
      show ?thesis
      proof (cases "obj_mode ob = ''OBJECT''")
        case True
        let ?s3 = "?s1\<lparr>live_bmeshes := Suc (live_bmeshes c)\<rparr>"
        obtain s4 where s4:
          "analyze_mesh ?s3 (obj_data ob) (length (faces (obj_data ob))) = Inr s4"
          "active_object s4 = active_object ?s3" "live_bmeshes s4 = live_bmeshes ?s3"
          using analyze_mesh_total [OF nz] by blast
        show ?thesis
          using Some mesh False True s4 by (simp add: analyze_execute_def Let_def)
      next
        case edit: False
        let ?s3 = "?s1\<lparr>active_object := Some (ob\<lparr>obj_mode := ''OBJECT''\<rparr>),
                       live_bmeshes := Suc (live_bmeshes c)\<rparr>"
        obtain s4 where s4:
          "analyze_mesh ?s3 (obj_data ob) (length (faces (obj_data ob))) = Inr s4"
          "active_object s4 = active_object ?s3" "live_bmeshes s4 = live_bmeshes ?s3"
          using analyze_mesh_total [OF nz] by blast
        show ?thesis
          using Some mesh False edit s4
          by (simp add: analyze_execute_def Let_def mode_set_def has_edit_mode_def)
      qed
    qed
  qed
qed

subsection \<open>Aborted and empty analyses\<close>

lemmas example_defs = scene_of_def issue_def mesh_object_def earlier_stats_def
  unit_edge_def face_of_def vert_on_def

text \<open>
  C4 (amended). With no active object, or an active object that is not a mesh, the analysis
  reports the error and is cancelled; the stats record, the object and everything else are
  as before, but the report list has been emptied: it is cleared before the check.
\<close>

theorem analyze_without_mesh:
  assumes "active_object c = None \<or> (\<exists>ob. active_object c = Some ob \<and> obj_type ob \<noteq> ''MESH'')"
  shows "analyze_execute c =
           (Returned CANCELLED,
            c\<lparr>topo_report_list := [],
              reports := reports c @ [(''ERROR'', ''Please select a Mesh object.'')]\<rparr>)"
  using assms by (auto simp: analyze_execute_def report_def)

theorem analyze_without_mesh_witness:
  "(active_object camera_state = None \<or>
     (\<exists>ob. active_object camera_state = Some ob \<and> obj_type ob \<noteq> ''MESH''))
   \<and> analyze_execute camera_state =
       (Returned CANCELLED,
        camera_state\<lparr>topo_report_list := [],
          reports := reports camera_state @ [(''ERROR'', ''Please select a Mesh object.'')]\<rparr>)"
proof -
  have h: "active_object camera_state = None \<or>
     (\<exists>ob. active_object camera_state = Some ob \<and> obj_type ob \<noteq> ''MESH'')"
    by (simp add: camera_state_def example_defs)
  show ?thesis using h analyze_without_mesh [OF h] by simp
qed

text \<open>
  The claim as stated (report list as before) fails where the list held a record.
\<close>

theorem analyze_without_mesh_clears_reports:
  "active_object no_object_state = None
   \<and> topo_report_list no_object_state = [issue ''CRITICAL'' ''4'' ''EDGE'' 0]
   \<and> fst (analyze_execute no_object_state) = Returned CANCELLED
   \<and> topo_report_list (snd (analyze_execute no_object_state)) = []"
  by (simp add: no_object_state_def scene_of_def analyze_execute_def report_def)

text \<open>
  C5 (amended). On a mesh with no faces the analysis finishes without any report, writes no
  issue record (the list is empty), frees its copy, and changes one field of the stats
  record only: \<open>target_name\<close>. The vertex and face counts, like the score, keep their
  earlier values.
\<close>

theorem analyze_faceless:
  assumes "active_object c = Some ob" and "obj_type ob = ''MESH''"
    and "faces (obj_data ob) = []"
  shows "fst (analyze_execute c) = Returned FINISHED
       \<and> reports (snd (analyze_execute c)) = reports c
       \<and> topo_report_list (snd (analyze_execute c)) = []
       \<and> topo_stats (snd (analyze_execute c)) = (topo_stats c)\<lparr>target_name := obj_name ob\<rparr>
       \<and> live_bmeshes (snd (analyze_execute c)) = live_bmeshes c"
  using assms by (simp add: analyze_execute_def Let_def mode_set_def has_edit_mode_def)

theorem analyze_faceless_witness:
  "active_object faceless_state = Some (mesh_object ''Plane'' ''EDIT'' faceless_mesh)
   \<and> obj_type (mesh_object ''Plane'' ''EDIT'' faceless_mesh) = ''MESH''
   \<and> faces (obj_data (mesh_object ''Plane'' ''EDIT'' faceless_mesh)) = []
   \<and> fst (analyze_execute faceless_state) = Returned FINISHED
   \<and> reports (snd (analyze_execute faceless_state)) = []
   \<and> topo_report_list (snd (analyze_execute faceless_state)) = []
   \<and> topo_stats (snd (analyze_execute faceless_state)) = earlier_stats\<lparr>target_name := ''Plane''\<rparr>"
proof -
  have h1: "active_object faceless_state = Some (mesh_object ''Plane'' ''EDIT'' faceless_mesh)"
    by (simp add: faceless_state_def scene_of_def)
  have h2: "obj_type (mesh_object ''Plane'' ''EDIT'' faceless_mesh) = ''MESH''"
    by (simp add: mesh_object_def)
  have h3: "faces (obj_data (mesh_object ''Plane'' ''EDIT'' faceless_mesh)) = []"
    by (simp add: mesh_object_def faceless_mesh_def)
  show ?thesis
    using h1 h2 h3 analyze_faceless [OF h1 h2 h3]
    by (simp add: faceless_state_def scene_of_def mesh_object_def)
qed

text \<open>
  The claim as stated (vertex and face counts updated, nothing else) fails: a mesh of three
  vertices and no faces leaves the counts 8 and 6 of the earlier run and renames the target.
\<close>

theorem analyze_faceless_keeps_counts:
  "length (verts faceless_mesh) = 3 \<and> length (faces faceless_mesh) = 0
   \<and> vert_count (topo_stats faceless_state) = 8 \<and> face_count (topo_stats faceless_state) = 6
   \<and> fst (analyze_execute faceless_state) = Returned FINISHED
   \<and> vert_count (topo_stats (snd (analyze_execute faceless_state))) = 8
   \<and> face_count (topo_stats (snd (analyze_execute faceless_state))) = 6
   \<and> target_name (topo_stats faceless_state) = ''Cube''
   \<and> target_name (topo_stats (snd (analyze_execute faceless_state))) = ''Plane''"
  by (simp add: faceless_state_def faceless_mesh_def example_defs analyze_execute_def Let_def
      mode_set_def has_edit_mode_def)

text \<open>
  C6, at the zero-face return. A mesh object in edit mode without faces: the operator has
  switched to object mode and returns before the restoring \<open>mode_set\<close>, so the object is
  left in object mode.
\<close>

theorem analyze_faceless_leaves_object_mode:
  "map_option obj_mode (active_object faceless_state) = Some ''EDIT''
   \<and> faces (obj_data (the (active_object faceless_state))) = []
   \<and> fst (analyze_execute faceless_state) = Returned FINISHED
   \<and> map_option obj_mode (active_object (snd (analyze_execute faceless_state))) = Some ''OBJECT''"
  by (simp add: faceless_state_def faceless_mesh_def example_defs analyze_execute_def Let_def
      mode_set_def has_edit_mode_def)

subsection \<open>Focus: nothing to select, stale indices\<close>

text \<open>
  C3, at a stale index. The record's only index is 7 and the mesh has three faces: the
  guard \<open>target_id < len(bm.faces)\<close> skips the lookup, no \<open>IndexError\<close> is raised, and the
  operator deselects everything, advances the cursor and reports a selection.
\<close>

theorem focus_stale_index_reports_success:
  "parse_ids (element_indices (topo_report_list stale_state ! 0)) = Inr [7]
   \<and> length (faces three_quads) = 3
   \<and> fst (focus_execute 0 stale_state) = Returned FINISHED
   \<and> reports (snd (focus_execute 0 stale_state)) = [(''INFO'', ''Selected FACE #7 (1/1)'')]
   \<and> map current_pointer (topo_report_list (snd (focus_execute 0 stale_state))) = [1]
   \<and> map_option sel_faces (active_object (snd (focus_execute 0 stale_state))) = Some {}"
  by code_simp

text \<open>
  C9 (amended). On a record whose index string is empty or does not parse, the focus
  operator never reaches the selection. With no active object it raises \<open>AttributeError\<close>,
  and with an active object that is not in edit mode and has none it raises the
  \<open>TypeError\<close> of \<open>mode_set\<close>, the state unchanged in both cases. Otherwise it finishes
  without error; the selection flags, the cursor and the report list are as before (the
  object is put in edit mode). Only the empty string produces the warning: a string that
  fails to parse produces no message.
\<close>

theorem focus_nothing_to_select:
  assumes "py_index (int (length (topo_report_list c))) idx = Inr k"
    and "element_indices (topo_report_list c ! k) = []
         \<or> isl (parse_ids (element_indices (topo_report_list c ! k)))"
  shows "focus_execute idx c =
           (case active_object c of
              None \<Rightarrow> (Raised AttributeError, c)
            | Some ob \<Rightarrow>
                if obj_mode ob \<noteq> ''EDIT'' \<and> \<not> has_edit_mode (obj_type ob)
                then (Raised TypeError, c)
                else (Returned FINISHED,
                      c\<lparr>active_object := Some (ob\<lparr>obj_mode := ''EDIT''\<rparr>),
                        reports := reports c @
                          (if element_indices (topo_report_list c ! k) = []
                           then [(''WARNING'', ''No specific geometry to select for this issue.'')]
                           else [])\<rparr>))"
proof (cases "active_object c")
  case None
  then show ?thesis using assms(1) by (simp add: focus_execute_def Let_def)
next
  case (Some ob)
  show ?thesis
  proof (cases "element_indices (topo_report_list c ! k) = []")
    case True
    then show ?thesis
      using assms(1) Some by (cases "obj_mode ob = ''EDIT''")
        (auto simp: focus_execute_def Let_def report_def mode_set_def)
  next
    case False
    with assms(2) obtain e where "parse_ids (element_indices (topo_report_list c ! k)) = Inl e"
      by (auto simp: isl_def)
    then show ?thesis
      using False assms(1) Some by (cases "obj_mode ob = ''EDIT''")
        (auto simp: focus_execute_def Let_def report_def mode_set_def)
  qed
qed

theorem focus_nothing_to_select_witness:
  "py_index (int (length (topo_report_list good_state))) 0 = Inr 0
   \<and> (element_indices (topo_report_list good_state ! 0) = []
        \<or> isl (parse_ids (element_indices (topo_report_list good_state ! 0))))
   \<and> active_object good_state =
        Some ((mesh_object ''Cube'' ''OBJECT'' three_quads)\<lparr>sel_faces := {1}\<rparr>)
   \<and> focus_execute 0 good_state =
        (Returned FINISHED,
         good_state\<lparr>active_object :=
             Some ((mesh_object ''Cube'' ''EDIT'' three_quads)\<lparr>sel_faces := {1}\<rparr>),
           reports := [(''WARNING'', ''No specific geometry to select for this issue.'')]\<rparr>)"
proof -
  have h1: "py_index (int (length (topo_report_list good_state))) 0 = Inr 0"
    by (simp add: good_state_def scene_of_def py_index_def)
  have h2: "element_indices (topo_report_list good_state ! 0) = []
      \<or> isl (parse_ids (element_indices (topo_report_list good_state ! 0)))"
    by (simp add: good_state_def scene_of_def issue_def)
  show ?thesis
    using h1 h2 focus_nothing_to_select [OF h1 h2]
    by (simp add: good_state_def scene_of_def issue_def mesh_object_def has_edit_mode_def)
qed

text \<open>
  The claim as stated (a warning in both cases) fails on a string that does not parse.
\<close>

theorem focus_unparsable_is_silent:
  "element_indices (topo_report_list garbled_state ! 0) = ''abc''
   \<and> parse_ids ''abc'' = Inl ValueError
   \<and> focus_execute 0 garbled_state = (Returned FINISHED, garbled_state)
   \<and> reports (snd (focus_execute 0 garbled_state)) = []"
  by code_simp

text \<open>
  A camera has no edit mode: the operator ends with the \<open>TypeError\<close> of \<open>mode_set\<close>, whatever
  the record holds.
\<close>

lemma focus_on_camera_raises:
  "focus_execute 0 camera_state = (Raised TypeError, camera_state)"
  by code_simp

subsection \<open>Index strings\<close>

text \<open>
  The string written by the analysis is read back by the focus operator as the indices it
  was made from.
\<close>

lemma split_comma_plain: "CHR '','' \<notin> set s \<Longrightarrow> split_comma s = [s]"
  by (induction s) auto

lemma split_comma_append:
  "CHR '','' \<notin> set s \<Longrightarrow> split_comma (s @ CHR '','' # rest) = s # split_comma rest"
  by (induction s) auto

lemma split_join_comma:
  "ss \<noteq> [] \<Longrightarrow> \<forall>s \<in> set ss. CHR '','' \<notin> set s \<Longrightarrow> split_comma (join_comma ss) = ss"
proof (induction ss rule: join_comma.induct)
  case 1
  then show ?case by simp
next
  case (2 s)
  then show ?case by (simp add: split_comma_plain)
next
  case (3 s t ss)
  then show ?case by (simp add: split_comma_append)
qed

lemma digit_char_cases:
  "d < 10 \<Longrightarrow> is_digit (digit_char d) \<and> digit_val (digit_char d) = d"
proof -
  assume "d < 10"
  then consider "d = 0" | "d = 1" | "d = 2" | "d = 3" | "d = 4" | "d = 5" | "d = 6"
    | "d = 7" | "d = 8" | "d = 9" by atomize_elim arith
  then show ?thesis
    by cases (simp_all add: digit_char_def is_digit_def digit_val_def)
qed

lemma is_digit_plain:
  "is_digit c \<Longrightarrow> \<not> py_isspace c \<and> c \<noteq> CHR ''-'' \<and> c \<noteq> CHR ''+'' \<and> c \<noteq> CHR ''_''
     \<and> c \<noteq> CHR '',''"
  by (auto simp: is_digit_def py_isspace_def)

lemma str_nat_digits: "\<forall>c \<in> set (str_nat n). is_digit c"
proof (induction n rule: str_nat.induct)
  case (1 n)
  show ?case
  proof (cases "n < 10")
    case True
    then show ?thesis by (subst str_nat.simps) (simp add: digit_char_cases)
  next
    case False
    then show ?thesis using 1 by (subst str_nat.simps) (simp add: digit_char_cases)
  qed
qed

lemma str_nat_nonempty: "str_nat n \<noteq> []"
  by (subst str_nat.simps) simp

lemma str_nat_value: "foldl (\<lambda>a c. 10 * a + digit_val c) 0 (str_nat n) = n"
proof (induction n rule: str_nat.induct)
  case (1 n)
  show ?case
  proof (cases "n < 10")
    case True
    then show ?thesis by (subst str_nat.simps) (simp add: digit_char_cases)
  next
    case False
    then show ?thesis using 1 by (subst str_nat.simps) (simp add: digit_char_cases)
  qed
qed

lemma strip_plain:
  assumes "\<forall>c \<in> set s. \<not> py_isspace c"
  shows "strip s = s"
proof -
  have d: "\<And>t. \<forall>c \<in> set t. \<not> py_isspace c \<Longrightarrow> dropWhile py_isspace t = t"
    by (metis dropWhile_eq_self_iff hd_in_set)
  show ?thesis using assms by (simp add: strip_def d)
qed

lemma digits_ok_plain: "s \<noteq> [] \<Longrightarrow> \<forall>c \<in> set s. is_digit c \<Longrightarrow> digits_ok s"
proof (induction s rule: digits_ok.induct)
  case 1
  then show ?case by simp
next
  case (2 c)
  then show ?case by simp
next
  case (3 c d cs)
  then show ?case using is_digit_plain [of d] by simp
qed

lemma py_int_str_nat: "py_int (str_nat n) = Inr (int n)"
proof -
  obtain c r where cr: "str_nat n = c # r"
    using str_nat_nonempty [of n] by (cases "str_nat n") auto
  have dig: "\<forall>c \<in> set (str_nat n). is_digit c" by (rule str_nat_digits)
  then have st: "strip (str_nat n) = str_nat n"
    by (intro strip_plain) (simp add: is_digit_plain)
  have c: "c \<noteq> CHR ''-''" "c \<noteq> CHR ''+''"
    using dig cr is_digit_plain [of c] by auto
  have ok: "digits_ok (c # r)"
    using digits_ok_plain [of "str_nat n"] dig cr by simp
  have f: "filter (\<lambda>c. c \<noteq> CHR ''_'') (str_nat n) = str_nat n"
    using dig is_digit_plain by (intro filter_True) blast
  have v: "digits_value (c # r) = n"
    using str_nat_value [of n] f cr by (simp add: digits_value_def)
  show ?thesis
    using st cr c ok v by (simp add: py_int_def)
qed

lemma py_int_py_str_nat: "py_int (py_str (int n)) = Inr (int n)"
  by (simp add: py_str_def py_int_str_nat)

lemma parse_ids_join:
  assumes "ns \<noteq> []"
  shows "parse_ids (join_comma (map (\<lambda>n. py_str (int n)) ns)) = Inr (map int ns)"
    and "split_comma (join_comma (map (\<lambda>n. py_str (int n)) ns)) = map (\<lambda>n. py_str (int n)) ns"
proof -
  let ?ss = "map (\<lambda>n. py_str (int n)) ns"
  have nc: "\<forall>s \<in> set ?ss. CHR '','' \<notin> set s"
    using str_nat_digits is_digit_plain by (auto simp: py_str_def)
  show sp: "split_comma (join_comma ?ss) = ?ss"
    using assms nc by (intro split_join_comma) simp_all
  have "map_result py_int ?ss = Inr (map int ns)"
    by (induction ns) (simp_all add: py_int_py_str_nat)
  then show "parse_ids (join_comma ?ss) = Inr (map int ns)"
    by (simp add: parse_ids_def sp)
qed



lemma indices_str_parse:
  assumes "X \<noteq> []"
  shows "parse_ids (indices_str X) = Inr (map int (take 200 (map fst X)))"
    and "split_comma (indices_str X) = map (\<lambda>n. py_str (int n)) (take 200 (map fst X))"
proof -
  have ne: "take 200 (map fst X) \<noteq> []" using assms by (cases X) simp_all
  have eq: "indices_str X = join_comma (map (\<lambda>n. py_str (int n)) (take 200 (map fst X)))"
    by (simp add: indices_str_def take_map comp_def)
  show "parse_ids (indices_str X) = Inr (map int (take 200 (map fst X)))"
    using parse_ids_join(1) [OF ne] eq by simp
  show "split_comma (indices_str X) = map (\<lambda>n. py_str (int n)) (take 200 (map fst X))"
    using parse_ids_join(2) [OF ne] eq by simp
qed

lemma flagged_index_order:
  "sorted_wrt (<) (map fst (filter P (enumerate n xs)))"
proof -
  have "sorted_wrt (<) (map fst (enumerate n xs))"
    by simp
  then have "sorted_wrt (\<lambda>p q. fst p < fst q) (enumerate n xs)"
    unfolding sorted_wrt_map .
  then have "sorted_wrt (\<lambda>p q. fst p < fst q) (filter P (enumerate n xs))"
    by (rule sorted_wrt_filter)
  then show ?thesis unfolding sorted_wrt_map .
qed

lemma current_score_eq:
  "total_faces \<noteq> 0 \<Longrightarrow>
   current_score n total_faces b m =
     Inr (float_sub
           (if b then float_sub (float_sub 100
                   (float_mul (double_round (of_nat n / of_nat total_faces)) 200)) 25
            else float_sub 100 (float_mul (double_round (of_nat n / of_nat total_faces)) 200))
           (float_mul (double_round (of_nat m / of_nat total_faces)) 100))"
  by (simp add: current_score_def py_truediv_def Let_def)

lemma ngon_check_eq:
  "total_faces \<noteq> 0 \<Longrightarrow>
   ngon_check s ngons total_faces =
     Inr (s\<lparr>topo_report_list := topo_report_list s @
           (if ngons = [] then [] else
              [\<lparr>severity =
                  (if 1 < float_mul (double_round (of_nat (length ngons) / of_nat total_faces)) 100
                   then ''HIGH'' else ''MEDIUM''),
                name = py_str (int (length ngons)) @ '' N-Gons Detected'',
                description =
                  ''Faces with >4 edges. Click the button to cycle through them and fix.'',
                element_indices = indices_str ngons, element_type = ''FACE'',
                current_pointer = 0\<rparr>])\<rparr>)"
  by (simp add: ngon_check_def py_truediv_def Let_def add_issue_def)

lemma bad_edge_check_eq:
  "bad_edge_check s bad =
     s\<lparr>topo_report_list := topo_report_list s @
       (if bad = [] then [] else
          [\<lparr>severity = ''CRITICAL'', name = ''Non-Manifold Geometry'',
            description = ''Edges creating holes or internal faces.'',
            element_indices = indices_str bad, element_type = ''EDGE'',
            current_pointer = 0\<rparr>])\<rparr>"
  by (simp add: bad_edge_check_def add_issue_def)

lemma sliver_check_eq:
  "sliver_check s slivers =
     s\<lparr>topo_report_list := topo_report_list s @
       (if slivers = [] then [] else
          [\<lparr>severity = ''MEDIUM'',
            name = py_str (int (length slivers)) @ '' Sliver Faces'',
            description = ''Long, thin faces causing shading artifacts.'',
            element_indices = indices_str slivers, element_type = ''FACE'',
            current_pointer = 0\<rparr>])\<rparr>"
  by (simp add: sliver_check_def add_issue_def)

lemma pole_check_eq:
  "pole_check s poles =
     s\<lparr>topo_report_list := topo_report_list s @
       (if poles = [] then [] else
          [\<lparr>severity = ''INFO'',
            name = py_str (int (length poles)) @ '' High-Valence Poles'',
            description = ''Vertices with >5 edges (Stars). Check placement.'',
            element_indices = indices_str poles, element_type = ''VERT'',
            current_pointer = 0\<rparr>])\<rparr>"
  by (simp add: pole_check_def add_issue_def)

text \<open>The records the four checks add, in order, and the value stored as the score.\<close>

lemma analyze_mesh_result:
  assumes "total_faces \<noteq> 0"
  shows "analyze_mesh s bm total_faces =
       Inr (s\<lparr>topo_stats := (topo_stats s)
                \<lparr>vert_count := int (length (verts bm)),
                 face_count := int total_faces,
                 tri_count := int (length (filter (\<lambda>f. length (f_verts f) = 3) (faces bm))),
                 ngon_count := int (length (filter (\<lambda>f. 4 < length (f_verts f)) (faces bm))),
                 score := clamp_score (projr (current_score (length (ngon_faces bm)) total_faces
                            (bad_edges bm \<noteq> []) (length (projr (sliver_faces bm)))))\<rparr>,
              topo_report_list :=
                topo_report_list (pole_check (sliver_check (bad_edge_check
                  (projr (ngon_check s (ngon_faces bm) total_faces)) (bad_edges bm))
                  (projr (sliver_faces bm))) (pole_verts bm))\<rparr>)"
proof -
  have n: "ngon_check s' (ngon_faces bm) total_faces
      = Inr (projr (ngon_check s' (ngon_faces bm) total_faces))" for s'
    using ngon_check_eq [OF assms] by simp
  have c: "current_score k total_faces b m = Inr (projr (current_score k total_faces b m))"
    for k b m
    using current_score_eq [OF assms] by simp
  have S: "sliver_faces bm = Inr (projr (sliver_faces bm))"
    by (simp add: sliver_faces_total)
  show ?thesis
    apply (simp only: analyze_mesh_def Let_def)
    apply (subst n)
    apply (simp only: sum.case)
    apply (subst S)
    apply (simp only: sum.case)
    apply (subst c)
    apply (simp only: sum.case)
    apply (simp add: ngon_check_eq [OF assms] bad_edge_check_eq sliver_check_eq pole_check_eq)
    done
qed



lemma sliver_faces_projr:
  "projr (sliver_faces bm) = filter (\<lambda>p. is_sliver (snd p) = Inr True) (enumerate 0 (faces bm))"
  by (simp add: sliver_faces_total)

lemma analyze_execute_mesh:
  fixes c :: state and ob :: object
  defines "bm \<equiv> obj_data ob"
  defines "S \<equiv> filter (\<lambda>p. is_sliver (snd p) = Inr True) (enumerate 0 (faces bm))"
  defines "L \<equiv>
      (if ngon_faces bm = [] then [] else
         [\<lparr>severity =
             (if 1 < float_mul (double_round (of_nat (length (ngon_faces bm))
                                   / of_nat (length (faces bm)))) 100
              then ''HIGH'' else ''MEDIUM''),
           name = py_str (int (length (ngon_faces bm))) @ '' N-Gons Detected'',
           description =
             ''Faces with >4 edges. Click the button to cycle through them and fix.'',
           element_indices = indices_str (ngon_faces bm), element_type = ''FACE'',
           current_pointer = 0\<rparr>])
      @ (if bad_edges bm = [] then [] else
         [\<lparr>severity = ''CRITICAL'', name = ''Non-Manifold Geometry'',
           description = ''Edges creating holes or internal faces.'',
           element_indices = indices_str (bad_edges bm), element_type = ''EDGE'',
           current_pointer = 0\<rparr>])
      @ (if S = [] then [] else
         [\<lparr>severity = ''MEDIUM'',
           name = py_str (int (length S)) @ '' Sliver Faces'',
           description = ''Long, thin faces causing shading artifacts.'',
           element_indices = indices_str S, element_type = ''FACE'',
           current_pointer = 0\<rparr>])
      @ (if pole_verts bm = [] then [] else
         [\<lparr>severity = ''INFO'',
           name = py_str (int (length (pole_verts bm))) @ '' High-Valence Poles'',
           description = ''Vertices with >5 edges (Stars). Check placement.'',
           element_indices = indices_str (pole_verts bm), element_type = ''VERT'',
           current_pointer = 0\<rparr>])"
  assumes ob: "active_object c = Some ob" and mesh: "obj_type ob = ''MESH''"
    and ne: "faces bm \<noteq> []"
  shows "analyze_execute c =
    (Returned FINISHED,
     c\<lparr>topo_report_list :=
         (if L = [] then
            [\<lparr>severity = ''GOOD'', name = ''Immaculate Topology'',
              description = ''No issues found.'', element_indices = [], element_type = [],
              current_pointer = 0\<rparr>]
          else L),
       topo_stats :=
         \<lparr>vert_count = int (length (verts bm)),
          face_count = int (length (faces bm)),
          tri_count = int (length (filter (\<lambda>f. length (f_verts f) = 3) (faces bm))),
          ngon_count = int (length (filter (\<lambda>f. 4 < length (f_verts f)) (faces bm))),
          score = clamp_score (projr (current_score (length (ngon_faces bm))
                    (length (faces bm)) (bad_edges bm \<noteq> []) (length S))),
          target_name = obj_name ob\<rparr>\<rparr>)"
proof -
  have ne': "faces (obj_data ob) \<noteq> []" using ne by (simp add: bm_def)
  then have nz: "length (faces (obj_data ob)) \<noteq> 0" by simp
  have upd: "ob\<lparr>obj_mode := obj_mode ob\<rparr> = ob" by simp
  have st: "\<lparr>vert_count = a, face_count = b, tri_count = d, ngon_count = e, score = f,
      target_name = g\<rparr> = (topo_stats c)\<lparr>vert_count := a, face_count := b, tri_count := d,
      ngon_count := e, score := f, target_name := g\<rparr>" for a b d e f g
    by (cases "topo_stats c") simp
  show ?thesis
    unfolding L_def S_def bm_def st
    using ob mesh ne' nz
    by (cases "obj_mode ob = ''OBJECT''")
      (simp_all add: analyze_execute_def Let_def analyze_mesh_result [OF nz]
        ngon_check_eq [OF nz] bad_edge_check_eq sliver_check_eq pole_check_eq
        sliver_faces_projr add_issue_def upd mode_set_def has_edit_mode_def)
qed

lemma parse_ids_empty: "parse_ids [] = Inl ValueError"
  by (simp add: parse_ids_def py_int_def strip_def)

lemma indices_str_length:
  "X \<noteq> [] \<Longrightarrow> length (split_comma (indices_str X)) \<le> 200"
  by (simp add: indices_str_parse(2))

text \<open>
  C7. After an analysis of a mesh with at least one face, the report list holds one record
  for each check that flagged something, in the order n-gons, non-manifold edges, slivers,
  poles (or the single record of a clean mesh, whose index string is empty). Read back the
  way the focus operator reads it, the index string of a record is the list of the first
  200 flagged indices of its check; split at the commas it has at most 200 entries; and
  the flagged indices of every check are in ascending order.
\<close>

theorem index_lists_truncated:
  fixes c :: state and ob :: object
  defines "bm \<equiv> obj_data ob"
  defines "flagged \<equiv>
     [(''FACE'', map fst (ngon_faces bm)),
      (''EDGE'', map fst (bad_edges bm)),
      (''FACE'', map fst (filter (\<lambda>p. is_sliver (snd p) = Inr True) (enumerate 0 (faces bm)))),
      (''VERT'', map fst (pole_verts bm))]"
  defines "run \<equiv> topo_report_list (snd (analyze_execute c))"
  assumes ob: "active_object c = Some ob" and mesh: "obj_type ob = ''MESH''"
    and ne: "faces bm \<noteq> []"
  shows "map (\<lambda>r. (element_type r, parse_ids (element_indices r))) run =
           (if \<forall>p \<in> set flagged. snd p = [] then [([], Inl ValueError)]
            else map (\<lambda>p. (fst p, Inr (map int (take 200 (snd p)))))
                   (filter (\<lambda>p. snd p \<noteq> []) flagged))
       \<and> (\<forall>r \<in> set run. length (split_comma (element_indices r)) \<le> 200)
       \<and> (\<forall>p \<in> set flagged. sorted_wrt (<) (snd p))"
proof -
  have ne': "faces (obj_data ob) \<noteq> []" using ne by (simp add: bm_def)
  note run_eq = analyze_execute_mesh [OF ob mesh ne']
  have srt: "\<forall>p \<in> set flagged. sorted_wrt (<) (snd p)"
    by (simp add: flagged_def ngon_faces_def bad_edges_def pole_verts_def flagged_index_order)
  have P: "X \<noteq> [] \<Longrightarrow> parse_ids (indices_str X) = Inr (map int (take 200 (map fst X)))"
    for X :: "(nat \<times> 'a) list"
    by (rule indices_str_parse(1))
  have recs: "map (\<lambda>r. (element_type r, parse_ids (element_indices r))) run =
           (if \<forall>p \<in> set flagged. snd p = [] then [([], Inl ValueError)]
            else map (\<lambda>p. (fst p, Inr (map int (take 200 (snd p)))))
                   (filter (\<lambda>p. snd p \<noteq> []) flagged))"
    unfolding run_def flagged_def bm_def run_eq
    by (simp add: P parse_ids_empty)
  have len: "\<forall>r \<in> set run. length (split_comma (element_indices r)) \<le> 200"
    unfolding run_def bm_def run_eq
    by (simp add: indices_str_length)
  show ?thesis using recs len srt by simp
qed

theorem index_lists_truncated_witness:
  "active_object islands_state = Some (mesh_object ''Tiles'' ''OBJECT'' (islands 3))
   \<and> obj_type (mesh_object ''Tiles'' ''OBJECT'' (islands 3)) = ''MESH''
   \<and> length (faces (obj_data (mesh_object ''Tiles'' ''OBJECT'' (islands 3)))) = 3
   \<and> length (ngon_faces (islands 3)) = 3
   \<and> length (bad_edges (islands 3)) = 15
   \<and> map (\<lambda>r. (element_type r, parse_ids (element_indices r)))
        (topo_report_list (snd (analyze_execute islands_state)))
      = [(''FACE'', Inr [0, 1, 2]), (''EDGE'', Inr [0, 1, 2, 3, 4, 5, 6, 7, 8, 9, 10, 11, 12, 13, 14])]"
proof -
  let ?ob = "mesh_object ''Tiles'' ''OBJECT'' (islands 3)"
  have h1: "active_object islands_state = Some ?ob"
    by (simp add: islands_state_def scene_of_def)
  have h2: "obj_type ?ob = ''MESH''"
    by (simp add: mesh_object_def)
  have l: "length (faces (obj_data ?ob)) = 3"
    by (simp add: mesh_object_def islands_def)
  then have h3: "faces (obj_data ?ob) \<noteq> []" by auto
  have n: "length (ngon_faces (islands 3)) = 3" by code_simp
  have b: "length (bad_edges (islands 3)) = 15" by code_simp
  have d: "obj_data ?ob = islands 3" by (simp add: mesh_object_def)
  have r: "(if \<forall>p \<in> set
       [(''FACE'', map fst (ngon_faces (islands 3))),
        (''EDGE'', map fst (bad_edges (islands 3))),
        (''FACE'', map fst (filter (\<lambda>p. is_sliver (snd p) = Inr True)
                     (enumerate 0 (faces (islands 3))))),
        (''VERT'', map fst (pole_verts (islands 3)))]. snd p = []
      then [([], Inl ValueError)]
      else map (\<lambda>p. (fst p, Inr (map int (take 200 (snd p)))))
             (filter (\<lambda>p. snd p \<noteq> [])
       [(''FACE'', map fst (ngon_faces (islands 3))),
        (''EDGE'', map fst (bad_edges (islands 3))),
        (''FACE'', map fst (filter (\<lambda>p. is_sliver (snd p) = Inr True)
                     (enumerate 0 (faces (islands 3))))),
        (''VERT'', map fst (pole_verts (islands 3)))]))
     = [(''FACE'', Inr [0, 1, 2]), (''EDGE'', Inr [0, 1, 2, 3, 4, 5, 6, 7, 8, 9, 10, 11, 12, 13, 14])]"
    by code_simp
  show ?thesis
    using h1 h2 l n b index_lists_truncated [OF h1 h2 h3]
    by (simp only: d r simp_thms)
qed

subsection \<open>Slivers\<close>

text \<open>
  C8. A face is flagged as a sliver exactly when it has at least three edges, the least of
  its edge lengths is positive, and the quotient of the greatest by the least, as Python
  computes it, exceeds 15. The check never raises: the quotient is only formed with a
  positive divisor. The flagged faces of a mesh are the faces that pass this test, and
  they give one record of severity \<open>MEDIUM\<close>; no record is added when there is none.
\<close>

theorem sliver_flagging:
  "(let lens = map (\<lambda>e. calc_length (snd e)) (f_edges f)
    in is_sliver f =
         Inr (3 \<le> length (f_edges f) \<and> 0 < Min (set lens) \<and>
              15 < double_round (Max (set lens) / Min (set lens))))
   \<and> sliver_faces bm =
         Inr (filter (\<lambda>p. is_sliver (snd p) = Inr True) (enumerate 0 (faces bm)))
   \<and> sliver_check s slivers =
         s\<lparr>topo_report_list := topo_report_list s @
           (if slivers = [] then []
            else [\<lparr>severity = ''MEDIUM'',
                   name = py_str (int (length slivers)) @ '' Sliver Faces'',
                   description = ''Long, thin faces causing shading artifacts.'',
                   element_indices = indices_str slivers, element_type = ''FACE'',
                   current_pointer = 0\<rparr>])\<rparr>"
proof -
  have "(2 < length (f_edges f)) = (3 \<le> length (f_edges f))" by auto
  then show ?thesis
    by (simp add: is_sliver_total sliver_faces_total sliver_check_eq Let_def)
qed

subsection \<open>Cycling through the flagged elements\<close>

text \<open>One invocation on a mesh object, its target in range.\<close>

lemma py_index_Inr:
  "py_index n i = Inr j \<Longrightarrow> int j < n"
  by (auto simp: py_index_def Let_def split: if_splits)

lemma focus_step:
  fixes s :: state and ob :: object and j :: nat
  defines "item \<equiv> topo_report_list s ! j"
  defines "bm \<equiv> obj_data ob"
  assumes rec: "py_index (int (length (topo_report_list s))) idx = Inr j"
    and ob: "active_object s = Some ob" and mesh: "obj_type ob = ''MESH''"
    and parse: "parse_ids (element_indices item) = Inr ids"
    and q: "q = (if int (length ids) \<le> current_pointer item then 0 else current_pointer item)"
    and q0: "0 \<le> q" and qn: "q < int (length ids)"
    and t: "ids ! nat q = int t"
    and ty: "element_type item = ''FACE'' \<or> element_type item = ''EDGE''
             \<or> element_type item = ''VERT''"
    and bound: "t < (if element_type item = ''FACE'' then length (faces bm)
                     else if element_type item = ''EDGE'' then length (edges bm)
                     else length (verts bm))"
  shows "focus_execute idx s =
    (Returned FINISHED,
     s\<lparr>topo_report_list := (topo_report_list s)[j := item\<lparr>current_pointer := q + 1\<rparr>],
       active_object := Some (ob
         \<lparr>obj_mode := ''EDIT'',
          sel_verts := (if element_type item = ''FACE'' then set (f_verts (faces bm ! t))
                        else if element_type item = ''EDGE'' then set (e_verts (edges bm ! t))
                        else {t}),
          sel_edges := (if element_type item = ''FACE''
                        then set (map fst (f_edges (faces bm ! t)))
                        else if element_type item = ''EDGE'' then {t} else {}),
          sel_faces := (if element_type item = ''FACE'' then {t} else {}),
          select_history := []\<rparr>),
       reports := reports s @
         [(''INFO'', selected_message (element_type item) (int t) (q + 1) (length ids))],
       view_selected_calls := Suc (view_selected_calls s)\<rparr>)"
proof -
  have j: "j < length (topo_report_list s)"
    using py_index_Inr [OF rec] by simp
  have nonempty: "element_indices (topo_report_list s ! j) \<noteq> []"
    using parse parse_ids_empty by (auto simp: item_def)
  have get: "py_get ids q = Inr (int t)"
    using q0 qn t by (simp add: py_get_def py_index_def)
  have parse': "parse_ids (element_indices (topo_report_list s ! j)) = Inr ids"
    using parse by (simp add: item_def)
  have q': "(if int (length ids) \<le> current_pointer (topo_report_list s ! j) then 0
             else current_pointer (topo_report_list s ! j)) = q"
    using q by (simp add: item_def)
  have ms: "mode_set ''EDIT'' s = Inr (s\<lparr>active_object := Some (ob\<lparr>obj_mode := ''EDIT''\<rparr>)\<rparr>)"
    using ob mesh by (rule mode_set_mesh)
  have idx: "py_index (int (length ids)) q = Inr (nat q)"
    using q0 qn by (simp add: py_index_def)
  have sel: "select_target (deselect_all (ob\<lparr>obj_mode := ''EDIT''\<rparr>))
               (element_type (topo_report_list s ! j)) (int t) =
      Inr (ob\<lparr>obj_mode := ''EDIT'',
          sel_verts := (if element_type item = ''FACE'' then set (f_verts (faces bm ! t))
                        else if element_type item = ''EDGE'' then set (e_verts (edges bm ! t))
                        else {t}),
          sel_edges := (if element_type item = ''FACE''
                        then set (map fst (f_edges (faces bm ! t)))
                        else if element_type item = ''EDGE'' then {t} else {}),
          sel_faces := (if element_type item = ''FACE'' then {t} else {}),
          select_history := []\<rparr>)"
    using ty bound
    by (auto simp: select_target_def deselect_all_def py_index_def item_def bm_def Let_def)
  show ?thesis
  proof (cases "int (length ids) \<le> current_pointer (topo_report_list s ! j)")
    case True
    then have qz: "q = 0" using q' by simp
    show ?thesis
      using rec ob mesh nonempty parse' get j True sel
      by (cases "obj_mode ob = ''EDIT''")
        (simp_all add: focus_execute_def Let_def ms qz set_pointer_def update_object_def
          report_def item_def)
  next
    case False
    then have qz: "current_pointer (topo_report_list s ! j) = q" using q' by simp
    show ?thesis
      using rec ob mesh nonempty parse' get j False sel
      by (cases "obj_mode ob = ''EDIT''")
        (simp_all add: focus_execute_def Let_def ms qz set_pointer_def update_object_def
          report_def item_def)
  qed
qed

text \<open>The cursor stored after \<open>k\<close> invocations, and the position the next one selects.\<close>

lemma pointer_wrap:
  assumes "0 < n" and P: "P = (if k = 0 then 0 else int ((k - 1) mod n) + 1)"
  shows "(if int n \<le> P then 0 else P) = int (k mod n)"
proof (cases k)
  case 0
  then show ?thesis using assms by simp
next
  case (Suc k')
  have lt: "k' mod n < n" using assms(1) by simp
  have P': "P = int (Suc (k' mod n))" using P Suc by simp
  show ?thesis
  proof (cases "Suc (k' mod n) = n")
    case True
    then show ?thesis by (simp add: P' Suc mod_Suc)
  next
    case False
    then have "Suc (k' mod n) < n" using lt by simp
    then have "\<not> int n \<le> P" unfolding P' by simp
    then show ?thesis using False by (simp add: P' Suc mod_Suc)
  qed
qed

lemma focus_cycle_step:
  fixes c s :: state and ob :: object and j :: nat
  defines "item \<equiv> topo_report_list c ! j"
  defines "bm \<equiv> obj_data ob"
  assumes rec: "py_index (int (length (topo_report_list c))) idx = Inr j"
    and parse: "parse_ids (element_indices item) = Inr ids" and ne: "ids \<noteq> []"
    and ty: "element_type item = ''FACE'' \<or> element_type item = ''EDGE''
             \<or> element_type item = ''VERT''"
    and inb: "\<forall>i \<in> set ids. 0 \<le> i \<and>
               i < int (if element_type item = ''FACE'' then length (faces bm)
                        else if element_type item = ''EDGE'' then length (edges bm)
                        else length (verts bm))"
    and mesh: "obj_type ob = ''MESH''"
    and len: "length (topo_report_list s) = length (topo_report_list c)"
    and ptr: "topo_report_list s ! j =
                item\<lparr>current_pointer := (if k = 0 then 0
                                           else int ((k - 1) mod length ids) + 1)\<rparr>"
    and act: "active_object s = Some (ob\<lparr>obj_mode := m, sel_verts := V, sel_edges := E,
                sel_faces := F, select_history := h\<rparr>)"
  shows "focus_execute idx s =
    (Returned FINISHED,
     s\<lparr>topo_report_list :=
         (topo_report_list s)[j := item\<lparr>current_pointer := int (k mod length ids) + 1\<rparr>],
       active_object := Some (ob
         \<lparr>obj_mode := ''EDIT'',
          sel_verts := (if element_type item = ''FACE''
                        then set (f_verts (faces bm ! nat (ids ! (k mod length ids))))
                        else if element_type item = ''EDGE''
                        then set (e_verts (edges bm ! nat (ids ! (k mod length ids))))
                        else {nat (ids ! (k mod length ids))}),
          sel_edges := (if element_type item = ''FACE''
                        then set (map fst (f_edges (faces bm ! nat (ids ! (k mod length ids)))))
                        else if element_type item = ''EDGE''
                        then {nat (ids ! (k mod length ids))} else {}),
          sel_faces := (if element_type item = ''FACE''
                        then {nat (ids ! (k mod length ids))} else {}),
          select_history := []\<rparr>),
       reports := reports s @
         [(''INFO'', selected_message (element_type item) (ids ! (k mod length ids))
                      (int (k mod length ids) + 1) (length ids))],
       view_selected_calls := Suc (view_selected_calls s)\<rparr>)"
proof -
  let ?n = "length ids"
  let ?ob = "ob\<lparr>obj_mode := m, sel_verts := V, sel_edges := E, sel_faces := F,
                select_history := h\<rparr>"
  let ?t = "nat (ids ! (k mod ?n))"
  have n: "0 < ?n" using ne by simp
  then have kn: "k mod ?n < ?n" by simp
  then have mem: "ids ! (k mod ?n) \<in> set ids" by simp
  have t0: "0 \<le> ids ! (k mod ?n)" using inb mem by blast
  have rec': "py_index (int (length (topo_report_list s))) idx = Inr j"
    using rec len by simp
  have parse': "parse_ids (element_indices (topo_report_list s ! j)) = Inr ids"
    using parse ptr by simp
  have cp: "current_pointer (topo_report_list s ! j) =
      (if k = 0 then 0 else int ((k - 1) mod ?n) + 1)"
    unfolding ptr by simp
  have q: "int (k mod ?n) =
      (if int ?n \<le> current_pointer (topo_report_list s ! j) then 0
       else current_pointer (topo_report_list s ! j))"
    using pointer_wrap [OF n cp] by simp
  have t: "ids ! nat (int (k mod ?n)) = int ?t" using t0 by simp
  have ty': "element_type (topo_report_list s ! j) = ''FACE''
      \<or> element_type (topo_report_list s ! j) = ''EDGE''
      \<or> element_type (topo_report_list s ! j) = ''VERT''"
    using ty ptr by simp
  have et: "element_type (topo_report_list s ! j) = element_type item"
    using ptr by simp
  have bound: "?t < (if element_type (topo_report_list s ! j) = ''FACE''
                     then length (faces (obj_data ?ob))
                     else if element_type (topo_report_list s ! j) = ''EDGE''
                     then length (edges (obj_data ?ob))
                     else length (verts (obj_data ?ob)))"
    using inb mem t0 unfolding et bm_def by (auto split: if_splits)
  have mesh': "obj_type ?ob = ''MESH''" using mesh by simp
  have q0: "0 \<le> int (k mod ?n)" by simp
  have qn: "int (k mod ?n) < int ?n" using kn by simp
  note st = focus_step [OF rec' act mesh' parse' q q0 qn t ty' bound]
  show ?thesis
    unfolding st et by (simp add: ptr bm_def t0)
qed

text \<open>
  C2 (amended). A record whose index string parses to \<open>n > 0\<close> indices, all within the
  element table of the record's type, with its cursor at 0, on a mesh object whose mesh
  does not change. Every invocation finishes; invocation number \<open>k + 1\<close> leaves selected
  exactly the element \<open>ids[k mod n]\<close> (a face with its vertices and edges, an edge with its
  vertices, or a vertex) and reports it; and the cursor it stores is \<open>(k mod n) + 1\<close>, a value
  from 1 to \<open>n\<close>: the cursor is set back to 0 at the start of the next invocation, not at
  the end of this one.
\<close>

theorem focus_cycles:
  fixes c :: state and ob :: object and j :: nat and ids :: "int list" and k :: nat
  defines "item \<equiv> topo_report_list c ! j"
  defines "bm \<equiv> obj_data ob"
  defines "t \<equiv> nat (ids ! (k mod length ids))"
  assumes rec: "py_index (int (length (topo_report_list c))) idx = Inr j"
    and ob: "active_object c = Some ob" and mesh: "obj_type ob = ''MESH''"
    and parse: "parse_ids (element_indices item) = Inr ids" and ne: "ids \<noteq> []"
    and p0: "current_pointer item = 0"
    and ty: "element_type item = ''FACE'' \<or> element_type item = ''EDGE''
             \<or> element_type item = ''VERT''"
    and inb: "\<forall>i \<in> set ids. 0 \<le> i \<and>
               i < int (if element_type item = ''FACE'' then length (faces bm)
                        else if element_type item = ''EDGE'' then length (edges bm)
                        else length (verts bm))"
  shows "fst (focus_execute idx (focus_repeat k idx c)) = Returned FINISHED
       \<and> active_object (focus_repeat (Suc k) idx c) =
           Some (ob\<lparr>obj_mode := ''EDIT'',
                    sel_verts := (if element_type item = ''FACE'' then set (f_verts (faces bm ! t))
                                  else if element_type item = ''EDGE''
                                  then set (e_verts (edges bm ! t)) else {t}),
                    sel_edges := (if element_type item = ''FACE''
                                  then set (map fst (f_edges (faces bm ! t)))
                                  else if element_type item = ''EDGE'' then {t} else {}),
                    sel_faces := (if element_type item = ''FACE'' then {t} else {}),
                    select_history := []\<rparr>)
       \<and> current_pointer (topo_report_list (focus_repeat (Suc k) idx c) ! j)
           = int (k mod length ids) + 1
       \<and> last (reports (focus_repeat (Suc k) idx c)) =
           (''INFO'', selected_message (element_type item) (ids ! (k mod length ids))
                        (int (k mod length ids) + 1) (length ids))"
proof -
  note parse' = parse [unfolded item_def]
  note ty' = ty [unfolded item_def]
  note inb' = inb [unfolded item_def bm_def]
  note step = focus_cycle_step [OF rec parse' ne ty' inb' mesh]
  have j: "j < length (topo_report_list c)"
    using py_index_Inr [OF rec] by simp
  have inv: "length (topo_report_list (focus_repeat i idx c)) = length (topo_report_list c)
      \<and> topo_report_list (focus_repeat i idx c) ! j =
          (topo_report_list c ! j)\<lparr>current_pointer :=
             (if i = 0 then 0 else int ((i - 1) mod length ids) + 1)\<rparr>
      \<and> (\<exists>m V E F h. active_object (focus_repeat i idx c) =
            Some (ob\<lparr>obj_mode := m, sel_verts := V, sel_edges := E, sel_faces := F,
                     select_history := h\<rparr>))" for i
  proof (induction i)
    case 0
    have "(topo_report_list c ! j)\<lparr>current_pointer := 0\<rparr> = topo_report_list c ! j"
      using p0 [unfolded item_def] by (cases "topo_report_list c ! j") simp
    moreover have "ob = ob\<lparr>obj_mode := obj_mode ob, sel_verts := sel_verts ob,
        sel_edges := sel_edges ob, sel_faces := sel_faces ob,
        select_history := select_history ob\<rparr>" by simp
    then have "\<exists>m V E F h. active_object c =
            Some (ob\<lparr>obj_mode := m, sel_verts := V, sel_edges := E, sel_faces := F,
                     select_history := h\<rparr>)"
      using ob by metis
    ultimately show ?case by simp
  next
    case (Suc i)
    then obtain m V E F h where
      len: "length (topo_report_list (focus_repeat i idx c)) = length (topo_report_list c)"
      and ptr: "topo_report_list (focus_repeat i idx c) ! j =
          (topo_report_list c ! j)\<lparr>current_pointer :=
             (if i = 0 then 0 else int ((i - 1) mod length ids) + 1)\<rparr>"
      and act: "active_object (focus_repeat i idx c) =
            Some (ob\<lparr>obj_mode := m, sel_verts := V, sel_edges := E, sel_faces := F,
                     select_history := h\<rparr>)"
      by blast
    note st = step [OF len ptr act]
    have j': "j < length (topo_report_list (focus_repeat i idx c))" using j len by simp
    let ?t = "nat (ids ! (i mod length ids))"
    let ?ty = "element_type (topo_report_list c ! j)"
    let ?V = "if ?ty = ''FACE'' then set (f_verts (faces (obj_data ob) ! ?t))
              else if ?ty = ''EDGE'' then set (e_verts (edges (obj_data ob) ! ?t))
              else {?t}"
    let ?E = "if ?ty = ''FACE'' then set (map fst (f_edges (faces (obj_data ob) ! ?t)))
              else if ?ty = ''EDGE'' then {?t} else {}"
    let ?F = "if ?ty = ''FACE'' then {?t} else {}"
    have a: "active_object (focus_repeat (Suc i) idx c) =
        Some (ob\<lparr>obj_mode := ''EDIT'', sel_verts := ?V, sel_edges := ?E, sel_faces := ?F,
                 select_history := []\<rparr>)"
      unfolding focus_repeat.simps st by simp
    have b: "length (topo_report_list (focus_repeat (Suc i) idx c))
        = length (topo_report_list c)"
      unfolding focus_repeat.simps st using len by simp
    have d: "topo_report_list (focus_repeat (Suc i) idx c) ! j =
        (topo_report_list c ! j)\<lparr>current_pointer :=
           (if Suc i = 0 then 0 else int ((Suc i - 1) mod length ids) + 1)\<rparr>"
      unfolding focus_repeat.simps st using j' by simp
    from a have "\<exists>m V E F h. active_object (focus_repeat (Suc i) idx c) =
        Some (ob\<lparr>obj_mode := m, sel_verts := V, sel_edges := E, sel_faces := F,
                 select_history := h\<rparr>)"
      by blast
    with b d show ?case by blast
  qed
  from inv [of k] obtain m V E F h where
    len: "length (topo_report_list (focus_repeat k idx c)) = length (topo_report_list c)"
    and ptr: "topo_report_list (focus_repeat k idx c) ! j =
        (topo_report_list c ! j)\<lparr>current_pointer :=
           (if k = 0 then 0 else int ((k - 1) mod length ids) + 1)\<rparr>"
    and act: "active_object (focus_repeat k idx c) =
          Some (ob\<lparr>obj_mode := m, sel_verts := V, sel_edges := E, sel_faces := F,
                   select_history := h\<rparr>)"
    by blast
  note st = step [OF len ptr act]
  have j': "j < length (topo_report_list (focus_repeat k idx c))" using j len by simp
  show ?thesis
    unfolding focus_repeat.simps st item_def bm_def t_def using j'
    by simp
qed

theorem focus_cycles_witness:
  "py_index (int (length (topo_report_list cycle_state))) 0 = Inr 0
   \<and> active_object cycle_state = Some (mesh_object ''Strip'' ''OBJECT'' three_quads)
   \<and> parse_ids (element_indices (topo_report_list cycle_state ! 0)) = Inr [2, 0, 1]
   \<and> element_type (topo_report_list cycle_state ! 0) = ''FACE''
   \<and> length (faces three_quads) = 3
   \<and> fst (focus_execute 0 (focus_repeat 3 0 cycle_state)) = Returned FINISHED
   \<and> map_option sel_faces (active_object (focus_repeat 4 0 cycle_state)) = Some {2}
   \<and> current_pointer (topo_report_list (focus_repeat 4 0 cycle_state) ! 0) = 1"
proof -
  let ?ob = "mesh_object ''Strip'' ''OBJECT'' three_quads"
  have h1: "py_index (int (length (topo_report_list cycle_state))) 0 = Inr 0"
    by (simp add: cycle_state_def scene_of_def py_index_def)
  have h2: "active_object cycle_state = Some ?ob"
    by (simp add: cycle_state_def scene_of_def)
  have h3: "obj_type ?ob = ''MESH''" by (simp add: mesh_object_def)
  have h4: "parse_ids (element_indices (topo_report_list cycle_state ! 0)) = Inr [2, 0, 1]"
    by code_simp
  have h5: "[2, 0, 1] \<noteq> ([] :: int list)" by simp
  have h6: "current_pointer (topo_report_list cycle_state ! 0) = 0"
    by (simp add: cycle_state_def scene_of_def issue_def)
  have ty: "element_type (topo_report_list cycle_state ! 0) = ''FACE''"
    by (simp add: cycle_state_def scene_of_def issue_def)
  then have h7: "element_type (topo_report_list cycle_state ! 0) = ''FACE''
      \<or> element_type (topo_report_list cycle_state ! 0) = ''EDGE''
      \<or> element_type (topo_report_list cycle_state ! 0) = ''VERT''" by simp
  have l: "length (faces three_quads) = 3" by (simp add: three_quads_def)
  have h8: "\<forall>i \<in> set [2, 0, 1]. 0 \<le> i \<and>
      i < int (if element_type (topo_report_list cycle_state ! 0) = ''FACE''
               then length (faces (obj_data ?ob))
               else if element_type (topo_report_list cycle_state ! 0) = ''EDGE''
               then length (edges (obj_data ?ob))
               else length (verts (obj_data ?ob)))"
    by (simp add: ty l mesh_object_def)
  have n4: "Suc 3 = 4" by simp
  show ?thesis
    using h1 h2 h4 ty l focus_cycles [OF h1 h2 h3 h4 h5 h6 h7 h8, of 3]
    by (simp add: n4)
qed

text \<open>
  The claim as stated (the stored cursor is back at 0 after \<open>n\<close> invocations) fails: after
  three invocations on a record of three indices the stored cursor is 3.
\<close>

theorem focus_cursor_after_full_cycle:
  "parse_ids (element_indices (topo_report_list cycle_state ! 0)) = Inr [2, 0, 1]
   \<and> length (faces three_quads) = 3
   \<and> map current_pointer (topo_report_list cycle_state) = [0]
   \<and> map_option sel_faces (active_object (focus_repeat 1 0 cycle_state)) = Some {2}
   \<and> map_option sel_faces (active_object (focus_repeat 2 0 cycle_state)) = Some {0}
   \<and> map_option sel_faces (active_object (focus_repeat 3 0 cycle_state)) = Some {1}
   \<and> map current_pointer (topo_report_list (focus_repeat 3 0 cycle_state)) = [3]"
  by code_simp

subsection \<open>Rounding\<close>














subsection \<open>The score\<close>













end
